theory Spec2Isabelle
  imports Main
begin

section \<open>Python strings\<close>

text \<open>
  A Python \<open>str\<close> is a sequence of Unicode code points, and \<open>len\<close> counts code points.
  A string is therefore a list of code points, each a natural number. ASCII literals of
  the source are written through \<open>u\<close>; other characters by their code point.
\<close>

type_synonym ustring = "nat list"

definition u :: "string \<Rightarrow> ustring" where
  "u s = map of_char s"

text \<open>
  \<open>str.isspace\<close> for one code point (CPython's table of whitespace code points). The
  same table decides what \<open>str.strip()\<close> removes and what \<open>\s\<close> matches in a \<open>str\<close>
  pattern of module \<open>re\<close>.
\<close>

definition isspace :: "nat \<Rightarrow> bool" where
  "isspace c =
     ((9 \<le> c \<and> c \<le> 13) \<or> (28 \<le> c \<and> c \<le> 32) \<or> c = 133 \<or> c = 160 \<or> c = 5760
      \<or> (8192 \<le> c \<and> c \<le> 8202) \<or> c = 8232 \<or> c = 8233 \<or> c = 8239 \<or> c = 8287
      \<or> c = 12288)"

text \<open>\<open>description.strip()\<close>: leading and trailing whitespace removed.\<close>

definition py_strip :: "ustring \<Rightarrow> ustring" where
  "py_strip s = rev (dropWhile isspace (rev (dropWhile isspace s)))"

text \<open>\<open>sub in s\<close> on strings: \<open>sub\<close> occurs in \<open>s\<close> as a contiguous block.\<close>

fun py_in :: "ustring \<Rightarrow> ustring \<Rightarrow> bool" where
  "py_in sub [] = (sub = [])"
| "py_in sub (c # cs) = (take (length sub) (c # cs) = sub \<or> py_in sub cs)"

text \<open>\<open>sep.join(parts)\<close>.\<close>

fun py_join :: "ustring \<Rightarrow> ustring list \<Rightarrow> ustring" where
  "py_join sep [] = []"
| "py_join sep [x] = x"
| "py_join sep (x # y # ys) = x @ sep @ py_join sep (y # ys)"

text \<open>
  \<open>str.lower()\<close>, on the ASCII letters. Python also lowers letters outside ASCII; none of
  them becomes one of the ASCII letters the source looks for (\<open>claude\<close>, \<open>code\<close>).
\<close>

definition lower_cp :: "nat \<Rightarrow> nat" where
  "lower_cp c = (if 65 \<le> c \<and> c \<le> 90 then c + 32 else c)"

definition py_lower :: "ustring \<Rightarrow> ustring" where
  "py_lower s = map lower_cp s"

text \<open>\<open>str(n)\<close> for an integer: decimal digits, with a minus sign when negative.\<close>

fun str_nat :: "nat \<Rightarrow> ustring" where
  "str_nat n = (if n < 10 then [48 + n] else str_nat (n div 10) @ [48 + n mod 10])"

declare str_nat.simps [simp del]

definition str_int :: "int \<Rightarrow> ustring" where
  "str_int i = (if i < 0 then 45 # str_nat (nat (- i)) else str_nat (nat i))"

section \<open>bot.py: configuration and input validation\<close>

record config =
  AUTHORIZED_USER_ID :: "ustring option"
  GITHUB_TOKEN :: "ustring option"

definition MAX_TASK_DESCRIPTION_LENGTH :: nat where
  "MAX_TASK_DESCRIPTION_LENGTH = 500"

text \<open>The character class \<open>[a-zA-Z0-9\s\-_.,!?]\<close> of \<open>ALLOWED_TASK_CHARS\<close>.\<close>

definition allowed_char :: "nat \<Rightarrow> bool" where
  "allowed_char c =
     ((97 \<le> c \<and> c \<le> 122) \<or> (65 \<le> c \<and> c \<le> 90) \<or> (48 \<le> c \<and> c \<le> 57) \<or> isspace c
      \<or> c = 45 \<or> c = 95 \<or> c = 46 \<or> c = 44 \<or> c = 33 \<or> c = 63)"

text \<open>
  \<open>$\<close> without \<open>re.MULTILINE\<close>: the end of the string, or just before a newline that
  ends the string.
\<close>

definition at_dollar :: "ustring \<Rightarrow> bool" where
  "at_dollar rest = (rest = [] \<or> rest = [10])"

text \<open>
  \<open>ALLOWED_TASK_CHARS.match(s)\<close> for the pattern \<open>^[a-zA-Z0-9\s\-_.,!?]+$\<close>, as the
  backtracking matcher decides it: one character of the class, and then either \<open>$\<close>
  matches here or the repetition goes on.
\<close>

fun ALLOWED_TASK_CHARS_match :: "ustring \<Rightarrow> bool" where
  "ALLOWED_TASK_CHARS_match [] = False"
| "ALLOWED_TASK_CHARS_match (c # cs) =
     (allowed_char c \<and> (at_dollar cs \<or> ALLOWED_TASK_CHARS_match cs))"

datatype error = ValueError ustring | OSError

definition is_authorized :: "config \<Rightarrow> int \<Rightarrow> bool" where
  "is_authorized cfg user_id = (Some (str_int user_id) = AUTHORIZED_USER_ID cfg)"

definition sanitize_task_description :: "ustring \<Rightarrow> error + ustring" where
  "sanitize_task_description raw =
     (let description = py_strip raw in
      if length description > MAX_TASK_DESCRIPTION_LENGTH
      then Inl (ValueError (u ''Description too long (max 500 chars)''))
      else if \<not> ALLOWED_TASK_CHARS_match description
      then Inl (ValueError (u ''Description contains forbidden characters''))
      else if 47 \<in> set description \<or> 92 \<in> set description \<or> py_in [46, 46] description
      then Inl (ValueError (u ''Path separators not allowed in description''))
      else Inr description)"

section \<open>The world the handlers act on\<close>

text \<open>
  The paths the two programs address. \<open>STATUS_FILE\<close>, \<open>APPROVAL_FILE\<close>,
  \<open>RESPONSE_FILE\<close> and \<open>TASKS_DIR\<close> are the four configured paths of bot.py, taken as
  different from one another; \<open>TASK_FILE n\<close> is the file named \<open>n\<close> inside
  \<open>TASKS_DIR\<close>; \<open>PENDING_DIR\<close> and \<open>PENDING_TASK_FILE\<close> are
  \<open>~/claude_code_tasks\<close> and \<open>~/claude_code_tasks/pending_task.txt\<close> of bot_v3.py.
\<close>

datatype path =
    STATUS_FILE | APPROVAL_FILE | RESPONSE_FILE | TASKS_DIR | TASK_FILE ustring
  | PENDING_DIR | PENDING_TASK_FILE

datatype backend = Local | Cloud

text \<open>The JSON request of \<open>trigger_github_actions\<close>: URL, the two headers, the payload.\<close>

record request =
  url :: ustring
  authorization :: ustring
  accept :: ustring
  event_type :: ustring
  task :: ustring
  chat_id :: ustring
  message_id :: ustring

text \<open>
  Everything a handler can change: the files and directories on disk, the dictionary
  \<open>user_execution_mode\<close> of bot_v3.py, and the requests posted to the remote endpoint
  so far. \<open>io_fails p\<close> says that the operating system refuses an operation on \<open>p\<close>
  (the source then sees an exception); a refused operation changes nothing.
  \<open>locale_encodes c\<close> says that the encoding of the host's locale, which \<open>open\<close> uses
  when no encoding is given, has a code for the code point \<open>c\<close>.
\<close>

record world =
  files :: "path \<Rightarrow> ustring option"
  dirs :: "path \<Rightarrow> bool"
  io_fails :: "path \<Rightarrow> bool"
  locale_encodes :: "nat \<Rightarrow> bool"
  user_execution_mode :: "int \<Rightarrow> backend option"
  posts :: "request list"

definition exists_file :: "path \<Rightarrow> world \<Rightarrow> bool" where
  "exists_file p w = (files w p \<noteq> None)"

definition mkdir :: "path \<Rightarrow> world \<Rightarrow> error + world" where
  "mkdir p w = (if io_fails w p then Inl OSError else Inr (w\<lparr>dirs := (dirs w)(p := True)\<rparr>))"

definition write_text :: "path \<Rightarrow> ustring \<Rightarrow> world \<Rightarrow> error + world" where
  "write_text p txt w =
     (if io_fails w p then Inl OSError else Inr (w\<lparr>files := (files w)(p := Some txt)\<rparr>))"

text \<open>
  \<open>open(p, 'w')\<close>: the file is created, or emptied if it exists, before anything is
  written to it.
\<close>

definition open_w :: "path \<Rightarrow> world \<Rightarrow> error + world" where
  "open_w p w =
     (if io_fails w p then Inl OSError else Inr (w\<lparr>files := (files w)(p := Some [])\<rparr>))"

text \<open>
  Whether \<open>f.write(txt)\<close> on a file opened in text mode without an encoding can encode
  \<open>txt\<close>: every code point needs a code in the locale's encoding, and no encoding
  has one for a lone surrogate. Otherwise \<open>f.write\<close> raises \<open>UnicodeEncodeError\<close>.
\<close>

definition encodable :: "world \<Rightarrow> ustring \<Rightarrow> bool" where
  "encodable w txt = list_all (\<lambda>c. locale_encodes w c \<and> (c < 55296 \<or> 57343 < c)) txt"

definition read_text :: "path \<Rightarrow> world \<Rightarrow> error + ustring" where
  "read_text p w =
     (if io_fails w p then Inl OSError
      else case files w p of None \<Rightarrow> Inl OSError | Some txt \<Rightarrow> Inr txt)"

definition unlink :: "path \<Rightarrow> world \<Rightarrow> error + world" where
  "unlink p w =
     (if io_fails w p \<or> files w p = None then Inl OSError
      else Inr (w\<lparr>files := (files w)(p := None)\<rparr>))"

text \<open>
  What a handler sends back through \<open>reply_text\<close>: the kind of message and the data
  interpolated into it. The fixed wording of the messages is not modelled.
\<close>

datatype reply =
    Unauthorized | StartHelp | Pong
  | StatusMessage "ustring option" bool
  | Usage
  | TaskCreated ustring ustring
  | ValidationFailed ustring
  | SafeErrorMessage
  | NoPendingApprovals
  | ApprovedReply | RejectedReply
  | V3Start backend
  | NeedDescription
  | TaskQueued backend ustring
  | CloudTriggered | CloudFailed | LocalSent | LocalFailed
  | SwitchedCloud | SwitchedLocal
  | AutoDetectEnabled backend
  | V3Status "backend option" backend bool bool backend

section \<open>bot.py: the command handlers\<close>

text \<open>The three readings of the clock in \<open>create_task\<close>, as the strings they format to.\<close>

record clock =
  stamp :: ustring
  iso :: ustring
  started :: ustring

definition task_file_name :: "clock \<Rightarrow> ustring" where
  "task_file_name clk = u ''telegram_'' @ stamp clk @ u ''.md''"

definition task_content :: "clock \<Rightarrow> ustring \<Rightarrow> ustring" where
  "task_content clk description =
     u ''# Task from Telegram'' @ [10, 10]
     @ u ''**Created:** '' @ iso clk @ [10]
     @ u ''**Status:** pending'' @ [10, 10]
     @ u ''## Description'' @ [10]
     @ description @ [10, 10]
     @ u ''## Instructions'' @ [10]
     @ u ''Execute autonomously. Report progress to status file.'' @ [10]"

definition status_content :: "clock \<Rightarrow> ustring \<Rightarrow> ustring" where
  "status_content clk description =
     [128994] @ u '' New Task'' @ [10, 10]
     @ u ''Task: '' @ description @ [10]
     @ u ''Started: '' @ started clk @ [10]
     @ u ''File: '' @ task_file_name clk @ [10]"

definition start :: "config \<Rightarrow> int \<Rightarrow> world \<Rightarrow> reply list \<times> world" where
  "start cfg user_id w =
     (if \<not> is_authorized cfg user_id then ([Unauthorized], w) else ([StartHelp], w))"

definition ping :: "config \<Rightarrow> int \<Rightarrow> world \<Rightarrow> reply list \<times> world" where
  "ping cfg user_id w = (if \<not> is_authorized cfg user_id then ([], w) else ([Pong], w))"

definition status :: "config \<Rightarrow> int \<Rightarrow> world \<Rightarrow> reply list \<times> world" where
  "status cfg user_id w =
     (if \<not> is_authorized cfg user_id then ([], w)
      else if exists_file STATUS_FILE w
      then (case read_text STATUS_FILE w of
              Inl e \<Rightarrow> ([SafeErrorMessage], w)
            | Inr txt \<Rightarrow> ([StatusMessage (Some txt) (exists_file APPROVAL_FILE w)], w))
      else ([StatusMessage None (exists_file APPROVAL_FILE w)], w))"

definition create_task ::
  "config \<Rightarrow> clock \<Rightarrow> int \<Rightarrow> ustring list \<Rightarrow> world \<Rightarrow> reply list \<times> world" where
  "create_task cfg clk user_id args w =
     (if \<not> is_authorized cfg user_id then ([], w)
      else if args = [] then ([Usage], w)
      else case sanitize_task_description (py_join [32] args) of
          Inl (ValueError msg) \<Rightarrow> ([ValidationFailed msg], w)
        | Inl OSError \<Rightarrow> ([SafeErrorMessage], w)
        | Inr description \<Rightarrow>
           (case mkdir TASKS_DIR w of
              Inl e \<Rightarrow> ([SafeErrorMessage], w)
            | Inr w1 \<Rightarrow>
               (case write_text (TASK_FILE (task_file_name clk))
                       (task_content clk description) w1 of
                  Inl e \<Rightarrow> ([SafeErrorMessage], w1)
                | Inr w2 \<Rightarrow>
                   (case write_text STATUS_FILE (status_content clk description) w2 of
                      Inl e \<Rightarrow> ([SafeErrorMessage], w2)
                    | Inr w3 \<Rightarrow>
                       ([TaskCreated description (task_file_name clk)], w3)))))"

definition approve :: "config \<Rightarrow> int \<Rightarrow> world \<Rightarrow> reply list \<times> world" where
  "approve cfg user_id w =
     (if \<not> is_authorized cfg user_id then ([], w)
      else if \<not> exists_file APPROVAL_FILE w then ([NoPendingApprovals], w)
      else case write_text RESPONSE_FILE (u ''APPROVED'') w of
          Inl e \<Rightarrow> ([SafeErrorMessage], w)
        | Inr w1 \<Rightarrow>
           (case unlink APPROVAL_FILE w1 of
              Inl e \<Rightarrow> ([SafeErrorMessage], w1)
            | Inr w2 \<Rightarrow> ([ApprovedReply], w2)))"

definition reject :: "config \<Rightarrow> int \<Rightarrow> world \<Rightarrow> reply list \<times> world" where
  "reject cfg user_id w =
     (if \<not> is_authorized cfg user_id then ([], w)
      else if \<not> exists_file APPROVAL_FILE w then ([NoPendingApprovals], w)
      else case write_text RESPONSE_FILE (u ''REJECTED'') w of
          Inl e \<Rightarrow> ([SafeErrorMessage], w)
        | Inr w1 \<Rightarrow>
           (case unlink APPROVAL_FILE w1 of
              Inl e \<Rightarrow> ([SafeErrorMessage], w1)
            | Inr w2 \<Rightarrow> ([RejectedReply], w2)))"

text \<open>
  The file-system states that \<open>approve\<close> and \<open>reject\<close> pass through once the gate has
  been found open, one per completed file operation: the state at entry, the state after
  \<open>RESPONSE_FILE.write_text\<close>, the state after \<open>APPROVAL_FILE.unlink\<close>. An operation
  that raises ends the list. Another process reading the files can see any of them.
\<close>

definition resolve_states :: "ustring \<Rightarrow> world \<Rightarrow> world list" where
  "resolve_states decision w =
     (case write_text RESPONSE_FILE decision w of
        Inl e \<Rightarrow> [w]
      | Inr w1 \<Rightarrow>
         (case unlink APPROVAL_FILE w1 of
            Inl e \<Rightarrow> [w, w1]
          | Inr w2 \<Rightarrow> [w, w1, w2]))"

section \<open>bot_v3.py: mode selection and dispatch\<close>

text \<open>
  One entry of \<open>psutil.process_iter(['name', 'cmdline'])\<close>. psutil fills a field it
  may not read with \<open>None\<close>, so both the name and the command line are optional. The
  entries are read from a dictionary filled beforehand, so the handler for
  \<open>NoSuchProcess\<close> and \<open>AccessDenied\<close> around the loop body has nothing to catch.
\<close>

record proc =
  name :: "ustring option"
  cmdline :: "ustring list option"

text \<open>
  An exception that no handler of bot_v3.py catches: the command handler ends there,
  having sent nothing more and changed nothing more.
\<close>

datatype uncaught = AttributeError

text \<open>
  The loop of \<open>detect_execution_mode\<close>. The command line is read as \<open>cmdline or []\<close>;
  the name is not guarded, so \<open>proc.info['name'].lower()\<close> raises \<open>AttributeError\<close> on
  \<open>None\<close>, which \<open>except (NoSuchProcess, AccessDenied)\<close> does not catch. The name is
  looked at only when \<open>claude\<close> is not in the command line (\<open>or\<close> stops at the first
  true operand).
\<close>

fun detect_execution_mode :: "proc list \<Rightarrow> uncaught + backend" where
  "detect_execution_mode [] = Inr Cloud"
| "detect_execution_mode (p # ps) =
     (let line = py_join [32] (case cmdline p of None \<Rightarrow> [] | Some parts \<Rightarrow> parts) in
      if py_in (u ''claude'') (py_lower line) then Inr Local
      else case name p of
             None \<Rightarrow> Inl AttributeError
           | Some n \<Rightarrow>
               if py_in (u ''code'') (py_lower n) then Inr Local
               else detect_execution_mode ps)"

text \<open>
  \<open>user_execution_mode.get(chat_id, detect_execution_mode())\<close>, the expression that
  \<open>task_command\<close> and \<open>status_command\<close> both use to choose the backend. The second
  argument is the list of processes alive when the handler runs. Python evaluates the
  arguments of \<open>get\<close> before the call, so the probe runs, and may raise, whether or not
  a mode is stored.
\<close>

definition resolve_mode :: "proc list \<Rightarrow> int \<Rightarrow> world \<Rightarrow> uncaught + backend" where
  "resolve_mode procs cid w =
     (case detect_execution_mode procs of
        Inl e \<Rightarrow> Inl e
      | Inr detected \<Rightarrow>
          Inr (case user_execution_mode w cid of
                 Some m \<Rightarrow> m
               | None \<Rightarrow> detected))"

text \<open>
  What \<open>requests.post\<close> does: it raises, or it returns a response with a status code and
  a body.
\<close>

datatype http_result = RequestException | Response nat ustring

definition GITHUB_REPO :: ustring where
  "GITHUB_REPO = u ''Everest18/claude-code-telegram-control''"

text \<open>Python's truth value of an optional string: \<open>None\<close> and \<open>""\<close> are false.\<close>

definition truthy :: "ustring option \<Rightarrow> bool" where
  "truthy t = (case t of None \<Rightarrow> False | Some s \<Rightarrow> s \<noteq> [])"

definition dispatch_request :: "config \<Rightarrow> int \<Rightarrow> ustring \<Rightarrow> int \<Rightarrow> request" where
  "dispatch_request cfg cid task_description mid =
     \<lparr> url = u ''https://api.github.com/repos/'' @ GITHUB_REPO @ u ''/dispatches'',
       authorization =
         u ''Bearer '' @ (case GITHUB_TOKEN cfg of None \<Rightarrow> [] | Some t \<Rightarrow> t),
       accept = u ''application/vnd.github.v3+json'',
       event_type = u ''execute-task'',
       task = task_description,
       chat_id = str_int cid,
       message_id = str_int mid \<rparr>"

definition trigger_github_actions ::
  "config \<Rightarrow> http_result \<Rightarrow> int \<Rightarrow> ustring \<Rightarrow> int \<Rightarrow> world \<Rightarrow> bool \<times> world" where
  "trigger_github_actions cfg net cid task_description mid w =
     (if \<not> truthy (GITHUB_TOKEN cfg) then (False, w)
      else
        let w1 = w\<lparr>posts := posts w @ [dispatch_request cfg cid task_description mid]\<rparr> in
        case net of
          RequestException \<Rightarrow> (False, w1)
        | Response status_code body \<Rightarrow>
            (if status_code = 204 then (True, w1) else (False, w1)))"

text \<open>
  \<open>trigger_local_execution\<close>: \<open>os.makedirs\<close>, then \<open>open(task_file, 'w')\<close>, which
  empties the exchange file, then \<open>f.write(task_description)\<close>, which encodes the text
  with the locale's encoding. Any exception gives \<open>False\<close>; when it is the write that
  raises, the file has already been emptied. The \<open>print\<close> after the block writes the
  fixed path and a mark that the program has already printed when it started.
\<close>

definition trigger_local_execution :: "ustring \<Rightarrow> world \<Rightarrow> bool \<times> world" where
  "trigger_local_execution task_description w =
     (case mkdir PENDING_DIR w of
        Inl e \<Rightarrow> (False, w)
      | Inr w1 \<Rightarrow>
         (case open_w PENDING_TASK_FILE w1 of
            Inl e \<Rightarrow> (False, w1)
          | Inr w2 \<Rightarrow>
             (if encodable w2 task_description
              then (True, w2\<lparr>files := (files w2)(PENDING_TASK_FILE := Some task_description)\<rparr>)
              else (False, w2))))"

definition v3_start :: "proc list \<Rightarrow> world \<Rightarrow> uncaught + reply list \<times> world" where
  "v3_start procs w =
     (case detect_execution_mode procs of
        Inl e \<Rightarrow> Inl e
      | Inr mode \<Rightarrow> Inr ([V3Start mode], w))"

definition task_command ::
  "config \<Rightarrow> proc list \<Rightarrow> http_result \<Rightarrow> int \<Rightarrow> int \<Rightarrow> ustring list \<Rightarrow> world
     \<Rightarrow> uncaught + reply list \<times> world" where
  "task_command cfg procs net cid mid args w =
     (if args = [] then Inr ([NeedDescription], w)
      else
        let task_description = py_join [32] args in
        case resolve_mode procs cid w of
          Inl e \<Rightarrow> Inl e
        | Inr mode \<Rightarrow>
           (if mode = Cloud
            then (case trigger_github_actions cfg net cid task_description mid w of
                    (success, w1) \<Rightarrow>
                      Inr ([TaskQueued mode task_description,
                            if success then CloudTriggered else CloudFailed], w1))
            else (case trigger_local_execution task_description w of
                    (success, w1) \<Rightarrow>
                      Inr ([TaskQueued mode task_description,
                            if success then LocalSent else LocalFailed], w1))))"

definition cloud_mode :: "int \<Rightarrow> world \<Rightarrow> reply list \<times> world" where
  "cloud_mode cid w =
     ([SwitchedCloud], w\<lparr>user_execution_mode := (user_execution_mode w)(cid := Some Cloud)\<rparr>)"

definition local_mode :: "int \<Rightarrow> world \<Rightarrow> reply list \<times> world" where
  "local_mode cid w =
     ([SwitchedLocal], w\<lparr>user_execution_mode := (user_execution_mode w)(cid := Some Local)\<rparr>)"

definition auto_mode :: "proc list \<Rightarrow> int \<Rightarrow> world \<Rightarrow> uncaught + reply list \<times> world" where
  "auto_mode procs cid w =
     (case detect_execution_mode procs of
        Inl e \<Rightarrow> Inl e
      | Inr mode \<Rightarrow>
          Inr ([AutoDetectEnabled mode],
               w\<lparr>user_execution_mode := (user_execution_mode w)(cid := Some mode)\<rparr>))"

definition status_command ::
  "config \<Rightarrow> proc list \<Rightarrow> int \<Rightarrow> world \<Rightarrow> uncaught + reply list \<times> world" where
  "status_command cfg procs cid w =
     (let current_mode = user_execution_mode w cid in
      case detect_execution_mode procs of
        Inl e \<Rightarrow> Inl e
      | Inr detected_mode \<Rightarrow>
          (let github_available = truthy (GITHUB_TOKEN cfg);
               local_available = (detected_mode = Local)
           in Inr ([V3Status current_mode detected_mode local_available github_available
                      (case user_execution_mode w cid of
                         Some m \<Rightarrow> m
                       | None \<Rightarrow> detected_mode)], w)))"

section \<open>Properties stated by the specification\<close>

text \<open>
  A valid description, in the words of the specification: not empty, at most
  \<open>MAX_TASK_DESCRIPTION_LENGTH\<close> characters, only characters of the allowed set, no
  \<open>/\<close>, no \<open>\\<close> and no \<open>..\<close>.
\<close>

definition valid_description :: "ustring \<Rightarrow> bool" where
  "valid_description d =
     (d \<noteq> [] \<and> length d \<le> MAX_TASK_DESCRIPTION_LENGTH \<and> list_all allowed_char d
      \<and> 47 \<notin> set d \<and> 92 \<notin> set d \<and> \<not> py_in [46, 46] d)"

text \<open>
  A transport failure of the cloud dispatch, in the words of the specification: the
  credential is missing, the request raises, or the answer carries a status other than
  the accepted one.
\<close>

definition transport_failure :: "config \<Rightarrow> http_result \<Rightarrow> bool" where
  "transport_failure cfg net =
     (\<not> truthy (GITHUB_TOKEN cfg)
      \<or> (case net of RequestException \<Rightarrow> True | Response status_code body \<Rightarrow> status_code \<noteq> 204))"

section \<open>Example inputs\<close>

definition cfg_example :: config where
  "cfg_example = \<lparr> AUTHORIZED_USER_ID = Some (u ''123''), GITHUB_TOKEN = Some (u ''ghp_1'') \<rparr>"

definition clk_example :: clock where
  "clk_example =
     \<lparr> stamp = u ''20250101_120000_000001'', iso = u ''2025-01-01T12:00:00.000002'',
       started = u ''12:00 PM'' \<rparr>"

definition w_empty :: world where
  "w_empty =
     \<lparr> files = (\<lambda>p. None), dirs = (\<lambda>p. False), io_fails = (\<lambda>p. False),
       locale_encodes = (\<lambda>c. True), user_execution_mode = (\<lambda>c. None), posts = [] \<rparr>"


definition w_gate_open :: world where
  "w_gate_open = w_empty\<lparr>files := (files w_empty)(APPROVAL_FILE := Some (u ''Run tests?''))\<rparr>"

definition claude_proc :: proc where
  "claude_proc = \<lparr> name = Some (u ''node''), cmdline = Some [u ''/usr/local/bin/claude''] \<rparr>"

definition unreadable_proc :: proc where
  "unreadable_proc = \<lparr> name = None, cmdline = None \<rparr>"

section \<open>String lemmas\<close>

lemma isspace_not_sep: "\<not> isspace 47" "\<not> isspace 92" "\<not> isspace 46"
  by (simp_all add: isspace_def)

lemma py_in_iff: "py_in sub s \<longleftrightarrow> (\<exists>p q. s = p @ sub @ q)"
proof (induction s)
  case Nil
  then show ?case by auto
next
  case (Cons c cs)
  show ?case
  proof
    assume "py_in sub (c # cs)"
    then consider "take (length sub) (c # cs) = sub" | "py_in sub cs" by auto
    then show "\<exists>p q. c # cs = p @ sub @ q"
    proof cases
      case 1
      then have "c # cs = [] @ sub @ drop (length sub) (c # cs)"
        by (metis append_Nil append_take_drop_id)
      then show ?thesis by blast
    next
      case 2
      then obtain p q where "cs = p @ sub @ q" using Cons.IH by blast
      then have "c # cs = (c # p) @ sub @ q" by simp
      then show ?thesis by blast
    qed
  next
    assume "\<exists>p q. c # cs = p @ sub @ q"
    then obtain p q where pq: "c # cs = p @ sub @ q" by blast
    show "py_in sub (c # cs)"
    proof (cases p)
      case Nil
      then have "take (length sub) (c # cs) = sub" using pq by simp
      then show ?thesis by simp
    next
      case (Cons a p')
      then have "cs = p' @ sub @ q" using pq by simp
      then have "py_in sub cs" using Cons.IH by blast
      then show ?thesis by simp
    qed
  qed
qed

lemma match_iff: "ALLOWED_TASK_CHARS_match s \<longleftrightarrow> s \<noteq> [] \<and> list_all allowed_char s"
proof (induction s)
  case Nil
  then show ?case by simp
next
  case (Cons c cs)
  have nl: "allowed_char 10" by (simp add: allowed_char_def isspace_def)
  show ?case
  proof (cases cs)
    case Nil
    then show ?thesis by (simp add: at_dollar_def)
  next
    case (Cons d ds)
    then show ?thesis using Cons.IH nl by (auto simp: at_dollar_def)
  qed
qed

lemma strip_sub: "\<exists>p q. s = p @ py_strip s @ q"
proof -
  have 1: "s = takeWhile isspace s @ dropWhile isspace s" by simp
  let ?t = "dropWhile isspace s"
  have "rev ?t = takeWhile isspace (rev ?t) @ dropWhile isspace (rev ?t)" by simp
  then have "?t = rev (dropWhile isspace (rev ?t)) @ rev (takeWhile isspace (rev ?t))"
    by (metis rev_append rev_rev_ident)
  then have "s = takeWhile isspace s @ py_strip s @ rev (takeWhile isspace (rev ?t))"
    using 1 by (simp add: py_strip_def)
  then show ?thesis by blast
qed

lemma set_strip: "set (py_strip s) \<subseteq> set s"
  using strip_sub [of s] by (metis Un_upper1 Un_upper2 set_append subset_trans)

lemma length_strip: "length (py_strip s) \<le> length s"
proof -
  obtain p q where "s = p @ py_strip s @ q" using strip_sub by blast
  then have "length s = length p + length (py_strip s) + length q"
    by (metis length_append add.assoc)
  then show ?thesis by simp
qed

lemma strip_keeps_block:
  assumes "s = p @ sub @ q" "sub \<noteq> []" "\<not> isspace (hd sub)" "\<not> isspace (last sub)"
  shows "\<exists>p' q'. py_strip s = p' @ sub @ q'"
proof -
  obtain a sub' where a: "sub = a # sub'" using assms(2) by (cases sub) auto
  have na: "\<not> isspace a" using assms(3) a by simp
  have d1: "dropWhile isspace s = dropWhile isspace p @ sub @ q"
    using assms(1) a na by (simp add: dropWhile_append3)
  obtain l r where l: "rev sub = l # r" using assms(2) by (cases "rev sub") auto
  have "l = last sub" using l assms(2) by (metis last_rev list.sel(1) rev_rev_ident rev_is_Nil_conv)
  then have nl: "\<not> isspace l" using assms(4) by simp
  have "rev (dropWhile isspace s) = rev q @ l # (r @ rev (dropWhile isspace p))"
    using d1 l by simp
  then have "dropWhile isspace (rev (dropWhile isspace s))
      = dropWhile isspace (rev q) @ l # (r @ rev (dropWhile isspace p))"
    using nl by (simp add: dropWhile_append3)
  then have "py_strip s = dropWhile isspace p @ rev (l # r) @ rev (dropWhile isspace (rev q))"
    by (simp add: py_strip_def)
  then have "py_strip s = dropWhile isspace p @ sub @ rev (dropWhile isspace (rev q))"
    using l by (metis rev_rev_ident)
  then show ?thesis by blast
qed

lemma strip_keeps_char:
  assumes "c \<in> set s" "\<not> isspace c"
  shows "c \<in> set (py_strip s)"
proof -
  obtain p q where "s = p @ [c] @ q" using assms(1) by (metis append_Cons append_Nil split_list)
  then obtain p' q' where "py_strip s = p' @ [c] @ q'"
    using strip_keeps_block [of s p "[c]" q] assms(2) by auto
  then show ?thesis by simp
qed

lemma strip_keeps_in:
  assumes "py_in sub s" "sub \<noteq> []" "\<not> isspace (hd sub)" "\<not> isspace (last sub)"
  shows "py_in sub (py_strip s)"
  using assms strip_keeps_block unfolding py_in_iff by blast

lemma strip_in_back: "py_in sub (py_strip s) \<Longrightarrow> py_in sub s"
proof -
  assume "py_in sub (py_strip s)"
  then obtain p q where 1: "py_strip s = p @ sub @ q" unfolding py_in_iff by blast
  obtain p' q' where "s = p' @ py_strip s @ q'" using strip_sub by blast
  then have "s = (p' @ p) @ sub @ (q @ q')" using 1 by simp
  then show ?thesis unfolding py_in_iff by blast
qed

lemma sep_not_allowed: "\<not> allowed_char 47" "\<not> allowed_char 92"
  by (simp_all add: allowed_char_def isspace_def)

lemma sanitize_Inr_iff:
  "sanitize_task_description raw = Inr d \<longleftrightarrow> d = py_strip raw \<and> valid_description d"
  by (auto simp: sanitize_task_description_def valid_description_def Let_def match_iff)

lemma sanitize_Inl_ValueError:
  "sanitize_task_description raw = Inl e \<Longrightarrow> \<exists>msg. e = ValueError msg"
  by (auto simp: sanitize_task_description_def Let_def split: if_splits)


section \<open>Lemmas about the handlers of bot.py\<close>

lemma create_task_rejects:
  assumes "is_authorized cfg uid" "sanitize_task_description (py_join [32] args) = Inl (ValueError msg)"
    "args \<noteq> []"
  shows "create_task cfg clk uid args w = ([ValidationFailed msg], w)"
  using assms by (simp add: create_task_def)

lemma create_task_invalid_frame:
  assumes "sanitize_task_description (py_join [32] args) = Inl e"
  shows "snd (create_task cfg clk uid args w) = w"
  using assms by (cases e) (simp_all add: create_task_def)

lemma create_task_accepts:
  assumes "is_authorized cfg uid" "sanitize_task_description (py_join [32] args) = Inr d"
    "args \<noteq> []" "\<not> io_fails w TASKS_DIR" "\<not> io_fails w (TASK_FILE (task_file_name clk))"
    "\<not> io_fails w STATUS_FILE"
  shows "create_task cfg clk uid args w =
     ([TaskCreated d (task_file_name clk)],
      w\<lparr>dirs := (dirs w)(TASKS_DIR := True),
        files := (files w)(TASK_FILE (task_file_name clk) := Some (task_content clk d),
                           STATUS_FILE := Some (status_content clk d))\<rparr>)"
  using assms by (simp add: create_task_def mkdir_def write_text_def)

lemma botpy_unauthorized_frame:
  assumes "\<not> is_authorized cfg uid"
  shows "snd (start cfg uid w) = w" "ping cfg uid w = ([], w)" "status cfg uid w = ([], w)"
    "create_task cfg clk uid args w = ([], w)" "approve cfg uid w = ([], w)"
    "reject cfg uid w = ([], w)"
  using assms
  by (simp_all add: start_def ping_def status_def create_task_def approve_def reject_def)

lemmas string_eval =
  u_def py_strip_def isspace_def allowed_char_def MAX_TASK_DESCRIPTION_LENGTH_def
  py_lower_def lower_cp_def str_int_def str_nat.simps

lemma authorized_example: "is_authorized cfg_example 123"
  by (simp add: is_authorized_def cfg_example_def string_eval)

lemma unauthorized_example: "\<not> is_authorized cfg_example 999"
  by (simp add: is_authorized_def cfg_example_def string_eval)

lemma strip_replicate: "\<not> isspace c \<Longrightarrow> py_strip (replicate n c) = replicate n c"
  by (simp add: py_strip_def dropWhile_replicate)

lemma py_in_set: "py_in sub s \<Longrightarrow> set sub \<subseteq> set s"
  unfolding py_in_iff by auto

lemma sanitize_too_long:
  "length (py_strip raw) > MAX_TASK_DESCRIPTION_LENGTH \<Longrightarrow>
   sanitize_task_description raw = Inl (ValueError (u ''Description too long (max 500 chars)''))"
  by (simp add: sanitize_task_description_def)

lemma sanitize_dotdot:
  assumes "length (py_strip raw) \<le> MAX_TASK_DESCRIPTION_LENGTH" "py_strip raw \<noteq> []"
    "list_all allowed_char (py_strip raw)" "py_in [46, 46] (py_strip raw)"
  shows "sanitize_task_description raw
     = Inl (ValueError (u ''Path separators not allowed in description''))"
  using assms by (simp add: sanitize_task_description_def match_iff)

section \<open>Lemmas about the approval gate\<close>

lemma approve_last_state:
  assumes "is_authorized cfg uid" "exists_file APPROVAL_FILE w"
  shows "snd (approve cfg uid w) = last (resolve_states (u ''APPROVED'') w)"
  using assms by (simp add: approve_def resolve_states_def split: sum.splits)

lemma reject_last_state:
  assumes "is_authorized cfg uid" "exists_file APPROVAL_FILE w"
  shows "snd (reject cfg uid w) = last (resolve_states (u ''REJECTED'') w)"
  using assms by (simp add: reject_def resolve_states_def split: sum.splits)

lemma resolve_states_ok:
  assumes "exists_file APPROVAL_FILE w" "\<not> io_fails w RESPONSE_FILE" "\<not> io_fails w APPROVAL_FILE"
  shows "resolve_states d w =
     [w, w\<lparr>files := (files w)(RESPONSE_FILE := Some d)\<rparr>,
      w\<lparr>files := (files w)(RESPONSE_FILE := Some d, APPROVAL_FILE := None)\<rparr>]"
  using assms by (simp add: resolve_states_def write_text_def unlink_def exists_file_def)

lemma resolve_states_closed_has_resolution:
  assumes "exists_file APPROVAL_FILE w" "s \<in> set (resolve_states d w)"
    "\<not> exists_file APPROVAL_FILE s"
  shows "files s RESPONSE_FILE = Some d"
  using assms
  by (auto simp: resolve_states_def write_text_def unlink_def exists_file_def
      split: if_splits)

section \<open>Lemmas about bot_v3.py\<close>

lemma trigger_github_actions_failure:
  assumes "transport_failure cfg net"
  shows "trigger_github_actions cfg net cid d mid w =
     (False, if truthy (GITHUB_TOKEN cfg)
             then w\<lparr>posts := posts w @ [dispatch_request cfg cid d mid]\<rparr> else w)"
  using assms
  by (cases net) (auto simp: trigger_github_actions_def transport_failure_def Let_def)

lemma detect_execution_mode_readable:
  assumes "\<forall>p \<in> set procs. name p \<noteq> None"
  shows "detect_execution_mode procs =
     Inr (if (\<exists>p \<in> set procs.
                py_in (u ''claude'')
                  (py_lower (py_join [32] (case cmdline p of None \<Rightarrow> [] | Some parts \<Rightarrow> parts)))
                \<or> (case name p of None \<Rightarrow> False | Some n \<Rightarrow> py_in (u ''code'') (py_lower n)))
          then Local else Cloud)"
  using assms by (induction procs) (auto simp: Let_def split: option.splits)

lemma resolve_mode_returns:
  assumes "detect_execution_mode procs = Inr detected"
  shows "resolve_mode procs cid w =
     Inr (case user_execution_mode w cid of Some m \<Rightarrow> m | None \<Rightarrow> detected)"
  using assms by (simp add: resolve_mode_def)

lemma claude_proc_detected: "detect_execution_mode (claude_proc # ps) = Inr Local"
  by (simp add: claude_proc_def string_eval)

lemma unreadable_proc_raises: "detect_execution_mode (unreadable_proc # ps) = Inl AttributeError"
  by (simp add: unreadable_proc_def string_eval)

lemma auto_mode_pins:
  assumes "auto_mode procs cid w = Inr (replies, w1)" "detect_execution_mode later = Inr b"
  shows "resolve_mode later cid w1 = detect_execution_mode procs"
  using assms by (auto simp: auto_mode_def resolve_mode_def split: sum.splits)

lemma encodable_ascii: "encodable w_empty (u ''deploy'')"
  by (simp add: encodable_def w_empty_def string_eval)

section \<open>Task creation\<close>

text \<open>
  Claim C3. Whenever the description that \<open>create_task\<close> assembles from its arguments
  is valid once stripped, \<open>sanitize_task_description\<close> returns the stripped text
  unchanged; and when the requester is authorized and the file system accepts the three
  operations, the handler reports the task created, the task file holds the text
  written out below, with exactly that description as its \<open>Description\<close> section, and
  the status file holds the status text with the same description in its \<open>Task\<close> line.
\<close>

theorem create_task_stores_valid_description:
  assumes "valid_description (py_strip (py_join [32] args))"
  shows "sanitize_task_description (py_join [32] args) = Inr (py_strip (py_join [32] args))
    \<and> (is_authorized cfg uid \<and> \<not> io_fails w TASKS_DIR
         \<and> \<not> io_fails w (TASK_FILE (u ''telegram_'' @ stamp clk @ u ''.md''))
         \<and> \<not> io_fails w STATUS_FILE
       \<longrightarrow> fst (create_task cfg clk uid args w)
             = [TaskCreated (py_strip (py_join [32] args)) (u ''telegram_'' @ stamp clk @ u ''.md'')]
         \<and> files (snd (create_task cfg clk uid args w))
              (TASK_FILE (u ''telegram_'' @ stamp clk @ u ''.md''))
             = Some (u ''# Task from Telegram'' @ [10, 10]
                     @ u ''**Created:** '' @ iso clk @ [10]
                     @ u ''**Status:** pending'' @ [10, 10]
                     @ u ''## Description'' @ [10]
                     @ py_strip (py_join [32] args) @ [10, 10]
                     @ u ''## Instructions'' @ [10]
                     @ u ''Execute autonomously. Report progress to status file.'' @ [10])
         \<and> files (snd (create_task cfg clk uid args w)) STATUS_FILE
             = Some ([128994] @ u '' New Task'' @ [10, 10]
                     @ u ''Task: '' @ py_strip (py_join [32] args) @ [10]
                     @ u ''Started: '' @ started clk @ [10]
                     @ u ''File: '' @ u ''telegram_'' @ stamp clk @ u ''.md'' @ [10]))"
proof -
  let ?d = "py_strip (py_join [32] args)"
  have ok: "sanitize_task_description (py_join [32] args) = Inr ?d"
    using assms by (simp add: sanitize_Inr_iff)
  have "args \<noteq> []"
  proof
    assume "args = []"
    then have "?d = []" by (simp add: py_strip_def)
    then show False using assms by (simp add: valid_description_def)
  qed
  then show ?thesis
    using ok
    by (simp add: create_task_accepts task_file_name_def task_content_def status_content_def)
qed

theorem create_task_stores_valid_description_witness:
  "valid_description (py_strip (py_join [32] [u ''Fix'', u ''the'', u ''bug!'']))
   \<and> is_authorized cfg_example 123
   \<and> \<not> io_fails w_empty TASKS_DIR
   \<and> \<not> io_fails w_empty (TASK_FILE (u ''telegram_'' @ stamp clk_example @ u ''.md''))
   \<and> \<not> io_fails w_empty STATUS_FILE
   \<and> fst (create_task cfg_example clk_example 123 [u ''Fix'', u ''the'', u ''bug!''] w_empty)
       = [TaskCreated (u ''Fix the bug!'') (u ''telegram_20250101_120000_000001.md'')]
   \<and> files (snd (create_task cfg_example clk_example 123 [u ''Fix'', u ''the'', u ''bug!''] w_empty))
        (TASK_FILE (u ''telegram_20250101_120000_000001.md''))
       = Some (u ''# Task from Telegram\<newline>\<newline>**Created:** 2025-01-01T12:00:00.000002\<newline>**Status:** pending\<newline>\<newline>## Description\<newline>Fix the bug!\<newline>\<newline>## Instructions\<newline>Execute autonomously. Report progress to status file.\<newline>'')"
proof -
  have s: "py_strip (py_join [32] [u ''Fix'', u ''the'', u ''bug!'']) = u ''Fix the bug!''"
    by (simp add: string_eval)
  have v: "valid_description (py_strip (py_join [32] [u ''Fix'', u ''the'', u ''bug!'']))"
    unfolding s by (simp add: valid_description_def string_eval)
  have io: "\<not> io_fails w_empty TASKS_DIR"
    "\<not> io_fails w_empty (TASK_FILE (u ''telegram_'' @ stamp clk_example @ u ''.md''))"
    "\<not> io_fails w_empty STATUS_FILE"
    by (simp_all add: w_empty_def)
  have n: "u ''telegram_'' @ stamp clk_example @ u ''.md'' = u ''telegram_20250101_120000_000001.md''"
    by (simp add: clk_example_def u_def)
  have c: "u ''# Task from Telegram'' @ [10, 10]
           @ u ''**Created:** '' @ iso clk_example @ [10]
           @ u ''**Status:** pending'' @ [10, 10]
           @ u ''## Description'' @ [10]
           @ u ''Fix the bug!'' @ [10, 10]
           @ u ''## Instructions'' @ [10]
           @ u ''Execute autonomously. Report progress to status file.'' @ [10]
         = u ''# Task from Telegram\<newline>\<newline>**Created:** 2025-01-01T12:00:00.000002\<newline>**Status:** pending\<newline>\<newline>## Description\<newline>Fix the bug!\<newline>\<newline>## Instructions\<newline>Execute autonomously. Report progress to status file.\<newline>''"
    by (simp add: clk_example_def u_def)
  show ?thesis
    using create_task_stores_valid_description [OF v, of cfg_example 123 w_empty clk_example]
      v authorized_example io
    unfolding s n c by simp
qed

text \<open>
  Claim C4. Whenever the description contains \<open>/\<close>, \<open>\\<close> or \<open>..\<close>,
  \<open>sanitize_task_description\<close> raises \<open>ValueError\<close>, \<open>create_task\<close> leaves every file
  and directory as it was, and an authorized requester is answered with the validation
  message.
\<close>

theorem create_task_rejects_path_characters:
  assumes "47 \<in> set (py_join [32] args) \<or> 92 \<in> set (py_join [32] args)
           \<or> py_in [46, 46] (py_join [32] args)"
  shows "(\<exists>msg. sanitize_task_description (py_join [32] args) = Inl (ValueError msg))
    \<and> snd (create_task cfg clk uid args w) = w
    \<and> (is_authorized cfg uid \<longrightarrow>
          (\<exists>msg. create_task cfg clk uid args w = ([ValidationFailed msg], w)))"
proof -
  let ?raw = "py_join [32] args"
  let ?d = "py_strip ?raw"
  have bad: "47 \<in> set ?d \<or> 92 \<in> set ?d \<or> py_in [46, 46] ?d"
    using assms strip_keeps_char [of 47 ?raw] strip_keeps_char [of 92 ?raw]
      strip_keeps_in [of "[46, 46]" ?raw]
    by (auto simp: isspace_def)
  then have "\<not> valid_description ?d" by (auto simp: valid_description_def)
  then have "\<forall>d. sanitize_task_description ?raw \<noteq> Inr d" by (simp add: sanitize_Inr_iff)
  then obtain e where e: "sanitize_task_description ?raw = Inl e"
    by (cases "sanitize_task_description ?raw") auto
  then obtain msg where msg: "sanitize_task_description ?raw = Inl (ValueError msg)"
    using sanitize_Inl_ValueError by blast
  have "?raw \<noteq> []" using assms by auto
  then have "args \<noteq> []" by auto
  then show ?thesis
    using msg create_task_rejects [of cfg uid args msg clk w]
      create_task_invalid_frame [OF msg, of cfg clk uid w]
    by auto
qed

theorem create_task_rejects_path_characters_witness:
  "py_in [46, 46] (py_join [32] [u ''cat'', u ''../secret''])
   \<and> is_authorized cfg_example 123
   \<and> create_task cfg_example clk_example 123 [u ''cat'', u ''../secret''] w_empty
       = ([ValidationFailed (u ''Description contains forbidden characters'')], w_empty)"
proof -
  have h: "py_in [46, 46] (py_join [32] [u ''cat'', u ''../secret''])"
    by (simp add: string_eval)
  have s: "sanitize_task_description (py_join [32] [u ''cat'', u ''../secret''])
      = Inl (ValueError (u ''Description contains forbidden characters''))"
    by (simp add: sanitize_task_description_def string_eval at_dollar_def)
  show ?thesis
    using create_task_rejects_path_characters
      [of "[u ''cat'', u ''../secret'']" cfg_example clk_example 123 w_empty]
      h authorized_example
      create_task_rejects [OF authorized_example s, of clk_example w_empty]
    by auto
qed

text \<open>
  A description of 500 dots has exactly \<open>MAX_TASK_DESCRIPTION_LENGTH\<close> characters, all
  of the allowed set, and \<open>create_task\<close> rejects it, since it contains \<open>..\<close>. A
  description of 501 characters, one space and 500 letters, is accepted by
  \<open>sanitize_task_description\<close>, since the length is checked after stripping.
\<close>

theorem length_boundary_counterexample:
  "length (replicate 500 (46::nat)) = MAX_TASK_DESCRIPTION_LENGTH
   \<and> list_all allowed_char (replicate 500 46)
   \<and> create_task cfg_example clk_example 123 [replicate 500 46] w_empty
       = ([ValidationFailed (u ''Path separators not allowed in description'')], w_empty)
   \<and> length (32 # replicate 500 (97::nat)) = MAX_TASK_DESCRIPTION_LENGTH + 1
   \<and> sanitize_task_description (32 # replicate 500 97) = Inr (replicate 500 97)"
proof -
  have dot: "\<not> isspace 46" "allowed_char 46" by (simp_all add: isspace_def allowed_char_def)
  have a: "\<not> isspace 97" "allowed_char 97" by (simp_all add: isspace_def allowed_char_def)
  have "replicate 500 (46::nat) = [] @ [46, 46] @ replicate 498 46"
    by (simp add: replicate_add [symmetric] flip: replicate_Suc)
  then have "py_in [46, 46] (replicate 500 46)" unfolding py_in_iff by blast
  then have "sanitize_task_description (replicate 500 46)
     = Inl (ValueError (u ''Path separators not allowed in description''))"
    using dot by (intro sanitize_dotdot)
      (simp_all add: strip_replicate MAX_TASK_DESCRIPTION_LENGTH_def list_all_iff)
  then have 1: "create_task cfg_example clk_example 123 [replicate 500 46] w_empty
       = ([ValidationFailed (u ''Path separators not allowed in description'')], w_empty)"
    using create_task_rejects [OF authorized_example, of "[replicate 500 46]"] by simp
  have s: "py_strip (32 # replicate 500 97) = replicate 500 97"
    using a by (simp add: py_strip_def isspace_def dropWhile_replicate)
  have "\<not> py_in [46, 46] (replicate 500 97)"
    using py_in_set [of "[46, 46]" "replicate 500 97"] by auto
  then have "valid_description (replicate 500 97)"
    using a by (simp add: valid_description_def MAX_TASK_DESCRIPTION_LENGTH_def list_all_iff)
  then have 2: "sanitize_task_description (32 # replicate 500 97) = Inr (replicate 500 97)"
    using s by (simp add: sanitize_Inr_iff)
  show ?thesis using 1 2 dot by (simp add: MAX_TASK_DESCRIPTION_LENGTH_def list_all_iff)
qed

text \<open>
  Claim C9, as amended. The bound applies to the stripped description. For an authorized
  requester, a description whose stripped length is \<open>MAX_TASK_DESCRIPTION_LENGTH + 1\<close>
  is refused with the length message and nothing is written. A description whose stripped
  length is exactly \<open>MAX_TASK_DESCRIPTION_LENGTH\<close>, drawn from the allowed set and
  without \<open>..\<close>, passes \<open>sanitize_task_description\<close> unchanged, and the task is
  reported created when the file system accepts the three operations.
\<close>

theorem length_boundary_after_strip:
  assumes "is_authorized cfg uid"
  shows "(length (py_strip (py_join [32] args)) = MAX_TASK_DESCRIPTION_LENGTH + 1 \<longrightarrow>
            create_task cfg clk uid args w
              = ([ValidationFailed (u ''Description too long (max 500 chars)'')], w))
    \<and> (length (py_strip (py_join [32] args)) = MAX_TASK_DESCRIPTION_LENGTH
          \<and> list_all allowed_char (py_join [32] args) \<and> \<not> py_in [46, 46] (py_join [32] args)
          \<and> \<not> io_fails w TASKS_DIR \<and> \<not> io_fails w (TASK_FILE (task_file_name clk))
          \<and> \<not> io_fails w STATUS_FILE \<longrightarrow>
            sanitize_task_description (py_join [32] args) = Inr (py_strip (py_join [32] args))
            \<and> fst (create_task cfg clk uid args w)
                = [TaskCreated (py_strip (py_join [32] args)) (task_file_name clk)])"
proof (intro conjI impI)
  let ?raw = "py_join [32] args"
  assume len: "length (py_strip ?raw) = MAX_TASK_DESCRIPTION_LENGTH + 1"
  then have "py_strip ?raw \<noteq> []" by auto
  then have "args \<noteq> []" by (auto simp: py_strip_def)
  moreover have "sanitize_task_description ?raw
      = Inl (ValueError (u ''Description too long (max 500 chars)''))"
    using len by (simp add: sanitize_too_long)
  ultimately show "create_task cfg clk uid args w
      = ([ValidationFailed (u ''Description too long (max 500 chars)'')], w)"
    using assms by (simp add: create_task_rejects)
next
  let ?raw = "py_join [32] args"
  assume h: "length (py_strip ?raw) = MAX_TASK_DESCRIPTION_LENGTH
          \<and> list_all allowed_char ?raw \<and> \<not> py_in [46, 46] ?raw
          \<and> \<not> io_fails w TASKS_DIR \<and> \<not> io_fails w (TASK_FILE (task_file_name clk))
          \<and> \<not> io_fails w STATUS_FILE"
  then have ne: "py_strip ?raw \<noteq> []" by (auto simp: MAX_TASK_DESCRIPTION_LENGTH_def)
  have al: "list_all allowed_char (py_strip ?raw)"
    using h set_strip [of ?raw] by (auto simp: list_all_iff)
  have nd: "\<not> py_in [46, 46] (py_strip ?raw)" using h strip_in_back by blast
  have "valid_description (py_strip ?raw)"
    using h ne al nd sep_not_allowed by (auto simp: valid_description_def list_all_iff)
  then have ok: "sanitize_task_description ?raw = Inr (py_strip ?raw)"
    by (simp add: sanitize_Inr_iff)
  have "args \<noteq> []" using ne by (auto simp: py_strip_def)
  then have "fst (create_task cfg clk uid args w)
                = [TaskCreated (py_strip ?raw) (task_file_name clk)]"
    using assms ok h by (simp add: create_task_accepts)
  then show "sanitize_task_description ?raw = Inr (py_strip ?raw)"
    and "fst (create_task cfg clk uid args w)
                = [TaskCreated (py_strip ?raw) (task_file_name clk)]"
    using ok by simp_all
qed

theorem length_boundary_after_strip_witness:
  "is_authorized cfg_example 123
   \<and> length (py_strip (py_join [32] [replicate 501 97])) = MAX_TASK_DESCRIPTION_LENGTH + 1
   \<and> create_task cfg_example clk_example 123 [replicate 501 97] w_empty
       = ([ValidationFailed (u ''Description too long (max 500 chars)'')], w_empty)
   \<and> length (py_strip (py_join [32] [replicate 500 97])) = MAX_TASK_DESCRIPTION_LENGTH
   \<and> list_all allowed_char (py_join [32] [replicate 500 97])
   \<and> \<not> py_in [46, 46] (py_join [32] [replicate 500 97])
   \<and> \<not> io_fails w_empty TASKS_DIR
   \<and> \<not> io_fails w_empty (TASK_FILE (task_file_name clk_example))
   \<and> \<not> io_fails w_empty STATUS_FILE
   \<and> fst (create_task cfg_example clk_example 123 [replicate 500 97] w_empty)
       = [TaskCreated (replicate 500 97) (task_file_name clk_example)]"
proof -
  have a: "\<not> isspace 97" "allowed_char 97" by (simp_all add: isspace_def allowed_char_def)
  have l1: "length (py_strip (py_join [32] [replicate 501 97])) = MAX_TASK_DESCRIPTION_LENGTH + 1"
    using a by (simp add: strip_replicate MAX_TASK_DESCRIPTION_LENGTH_def)
  have s2: "py_strip (py_join [32] [replicate 500 97]) = replicate 500 97"
    using a by (simp add: strip_replicate)
  have l2: "length (py_strip (py_join [32] [replicate 500 97])) = MAX_TASK_DESCRIPTION_LENGTH"
    unfolding s2 by (simp add: MAX_TASK_DESCRIPTION_LENGTH_def)
  have al: "list_all allowed_char (py_join [32] [replicate 500 97])"
    using a by (simp add: list_all_iff)
  have nd: "\<not> py_in [46, 46] (py_join [32] [replicate 500 97])"
    using py_in_set [of "[46, 46]" "replicate 500 97"] by auto
  have io: "\<not> io_fails w_empty TASKS_DIR"
    "\<not> io_fails w_empty (TASK_FILE (task_file_name clk_example))"
    "\<not> io_fails w_empty STATUS_FILE"
    by (simp_all add: w_empty_def)
  show ?thesis
    using length_boundary_after_strip
        [OF authorized_example, of "[replicate 501 97]" clk_example w_empty]
      length_boundary_after_strip
        [OF authorized_example, of "[replicate 500 97]" clk_example w_empty]
      authorized_example l1 l2 al nd io
    unfolding s2 by simp
qed

section \<open>The approval gate\<close>

text \<open>
  With the gate open, \<open>approve\<close> passes through a state in which \<open>RESPONSE_FILE\<close>
  already holds \<open>APPROVED\<close> while \<open>APPROVAL_FILE\<close> still exists: the state between
  \<open>write_text\<close> and \<open>unlink\<close>.
\<close>

theorem resolution_visible_while_gate_open:
  "resolve_states (u ''APPROVED'') w_gate_open ! 1 \<in> set (resolve_states (u ''APPROVED'') w_gate_open)
   \<and> files (resolve_states (u ''APPROVED'') w_gate_open ! 1) RESPONSE_FILE = Some (u ''APPROVED'')
   \<and> exists_file APPROVAL_FILE (resolve_states (u ''APPROVED'') w_gate_open ! 1)
   \<and> is_authorized cfg_example 123
   \<and> snd (approve cfg_example 123 w_gate_open) = last (resolve_states (u ''APPROVED'') w_gate_open)"
proof -
  have g: "exists_file APPROVAL_FILE w_gate_open"
    by (simp add: exists_file_def w_gate_open_def w_empty_def)
  have io: "\<not> io_fails w_gate_open RESPONSE_FILE" "\<not> io_fails w_gate_open APPROVAL_FILE"
    by (simp_all add: w_gate_open_def w_empty_def)
  show ?thesis
    using resolve_states_ok [OF g io, of "u ''APPROVED''"] g
      approve_last_state [OF authorized_example g] authorized_example
    by (simp add: exists_file_def)
qed

text \<open>
  Claim C2, as amended. Resolving an open gate is two file operations, in this order:
  the decision is written to \<open>RESPONSE_FILE\<close>, then \<open>APPROVAL_FILE\<close> is removed. In
  every state the operation passes through, a closed gate comes with the decision already
  in \<open>RESPONSE_FILE\<close>. When the file system accepts both operations the states are the
  three listed, the last one with the gate closed. The state \<open>approve\<close> and
  \<open>reject\<close> return is the last of these states.
\<close>

theorem resolve_writes_then_closes:
  assumes "exists_file APPROVAL_FILE w"
  shows "(\<forall>s \<in> set (resolve_states d w).
            \<not> exists_file APPROVAL_FILE s \<longrightarrow> files s RESPONSE_FILE = Some d)
    \<and> (\<not> io_fails w RESPONSE_FILE \<and> \<not> io_fails w APPROVAL_FILE \<longrightarrow>
          resolve_states d w =
            [w, w\<lparr>files := (files w)(RESPONSE_FILE := Some d)\<rparr>,
             w\<lparr>files := (files w)(RESPONSE_FILE := Some d, APPROVAL_FILE := None)\<rparr>])
    \<and> (is_authorized cfg uid \<longrightarrow>
          snd (approve cfg uid w) = last (resolve_states (u ''APPROVED'') w)
          \<and> snd (reject cfg uid w) = last (resolve_states (u ''REJECTED'') w))"
  using assms resolve_states_closed_has_resolution [OF assms] resolve_states_ok [OF assms]
    approve_last_state [of cfg uid w] reject_last_state [of cfg uid w]
  by blast

theorem resolve_writes_then_closes_witness:
  "exists_file APPROVAL_FILE w_gate_open
   \<and> \<not> io_fails w_gate_open RESPONSE_FILE \<and> \<not> io_fails w_gate_open APPROVAL_FILE
   \<and> is_authorized cfg_example 123
   \<and> resolve_states (u ''REJECTED'') w_gate_open =
       [w_gate_open,
        w_gate_open\<lparr>files := (files w_gate_open)(RESPONSE_FILE := Some (u ''REJECTED''))\<rparr>,
        w_gate_open\<lparr>files := (files w_gate_open)(RESPONSE_FILE := Some (u ''REJECTED''),
                                                   APPROVAL_FILE := None)\<rparr>]
   \<and> snd (reject cfg_example 123 w_gate_open)
       = w_gate_open\<lparr>files := (files w_gate_open)(RESPONSE_FILE := Some (u ''REJECTED''),
                                                   APPROVAL_FILE := None)\<rparr>
   \<and> \<not> exists_file APPROVAL_FILE (snd (reject cfg_example 123 w_gate_open))
   \<and> files (snd (reject cfg_example 123 w_gate_open)) RESPONSE_FILE = Some (u ''REJECTED'')"
proof -
  have g: "exists_file APPROVAL_FILE w_gate_open"
    by (simp add: exists_file_def w_gate_open_def w_empty_def)
  have io: "\<not> io_fails w_gate_open RESPONSE_FILE" "\<not> io_fails w_gate_open APPROVAL_FILE"
    by (simp_all add: w_gate_open_def w_empty_def)
  show ?thesis
    using resolve_writes_then_closes [OF g, of "u ''REJECTED''" cfg_example 123]
      g io authorized_example
    by (simp add: exists_file_def)
qed

section \<open>Cloud dispatch\<close>

text \<open>
  Claim C8. \<open>trigger_github_actions\<close> returns \<open>True\<close> exactly when the credential is
  present and the endpoint answers with status 204; a missing credential, a raised
  exception and every other status give \<open>False\<close>.
\<close>

theorem trigger_github_actions_success_iff:
  "fst (trigger_github_actions cfg net cid d mid w)
     \<longleftrightarrow> truthy (GITHUB_TOKEN cfg) \<and> (\<exists>body. net = Response 204 body)"
  by (cases net) (simp_all add: trigger_github_actions_def Let_def)

text \<open>
  A cloud dispatch whose request raises: \<open>task_command\<close> answers with the failure
  message, and the only change is the request in \<open>posts\<close>. No file exists afterwards,
  so no status \<open>failed\<close> is stored anywhere.
\<close>

theorem cloud_failure_writes_no_status:
  "transport_failure cfg_example RequestException
   \<and> task_command cfg_example [] RequestException 123 1 [u ''deploy''] w_empty
       = Inr ([TaskQueued Cloud (u ''deploy''), CloudFailed],
              w_empty\<lparr>posts := [dispatch_request cfg_example 123 (u ''deploy'') 1]\<rparr>)
   \<and> files (w_empty\<lparr>posts := [dispatch_request cfg_example 123 (u ''deploy'') 1]\<rparr>)
        STATUS_FILE = None
   \<and> files (w_empty\<lparr>posts := [dispatch_request cfg_example 123 (u ''deploy'') 1]\<rparr>)
       = files w_empty"
proof -
  have t: "truthy (GITHUB_TOKEN cfg_example)" by (simp add: truthy_def cfg_example_def u_def)
  have f: "transport_failure cfg_example RequestException" by (simp add: transport_failure_def)
  have m: "resolve_mode [] 123 w_empty = Inr Cloud" by (simp add: resolve_mode_def w_empty_def)
  have "task_command cfg_example [] RequestException 123 1 [u ''deploy''] w_empty
       = Inr ([TaskQueued Cloud (u ''deploy''), CloudFailed],
              w_empty\<lparr>posts := [dispatch_request cfg_example 123 (u ''deploy'') 1]\<rparr>)"
    using t m
    by (simp add: task_command_def trigger_github_actions_failure [OF f] w_empty_def Let_def)
  then show ?thesis using f by (simp add: w_empty_def)
qed

text \<open>
  Claim C5, as amended. On a transport failure of a cloud dispatch,
  \<open>trigger_github_actions\<close> returns \<open>False\<close>; \<open>task_command\<close> sends the
  acknowledgement and then exactly one failure message; at most one request has been
  posted (none when the credential is missing), so nothing is retried; and files,
  directories and the mode dictionary are as before: bot_v3.py keeps no task status.
\<close>

theorem cloud_failure_reported_once:
  assumes "transport_failure cfg net" "args \<noteq> []" "resolve_mode procs cid w = Inr Cloud"
  shows "\<not> fst (trigger_github_actions cfg net cid (py_join [32] args) mid w)
    \<and> (\<exists>w1. task_command cfg procs net cid mid args w
               = Inr ([TaskQueued Cloud (py_join [32] args), CloudFailed], w1)
          \<and> posts w1
              = posts w @ (if truthy (GITHUB_TOKEN cfg)
                           then [dispatch_request cfg cid (py_join [32] args) mid] else [])
          \<and> files w1 = files w
          \<and> dirs w1 = dirs w
          \<and> user_execution_mode w1 = user_execution_mode w)"
  using assms
  by (simp add: task_command_def trigger_github_actions_failure [OF assms(1)] Let_def)

theorem cloud_failure_reported_once_witness:
  "transport_failure cfg_example (Response 404 (u ''Not Found''))
   \<and> [u ''deploy''] \<noteq> []
   \<and> resolve_mode [] 123 w_empty = Inr Cloud
   \<and> task_command cfg_example [] (Response 404 (u ''Not Found'')) 123 1 [u ''deploy''] w_empty
       = Inr ([TaskQueued Cloud (u ''deploy''), CloudFailed],
              w_empty\<lparr>posts := [dispatch_request cfg_example 123 (u ''deploy'') 1]\<rparr>)"
proof -
  have t: "truthy (GITHUB_TOKEN cfg_example)" by (simp add: truthy_def cfg_example_def u_def)
  have f: "transport_failure cfg_example (Response 404 (u ''Not Found''))"
    by (simp add: transport_failure_def)
  have m: "resolve_mode [] 123 w_empty = Inr Cloud" by (simp add: resolve_mode_def w_empty_def)
  obtain w1 where w1:
    "task_command cfg_example [] (Response 404 (u ''Not Found'')) 123 1 [u ''deploy''] w_empty
       = Inr ([TaskQueued Cloud (u ''deploy''), CloudFailed], w1)"
    "posts w1 = posts w_empty @ [dispatch_request cfg_example 123 (u ''deploy'') 1]"
    "files w1 = files w_empty" "dirs w1 = dirs w_empty"
    "user_execution_mode w1 = user_execution_mode w_empty"
    using cloud_failure_reported_once [OF f _ m, where args = "[u ''deploy'']" and mid = 1] t
    by auto
  have "task_command cfg_example [] (Response 404 (u ''Not Found'')) 123 1 [u ''deploy''] w_empty
       = Inr ([TaskQueued Cloud (u ''deploy''), CloudFailed],
              w_empty\<lparr>posts := [dispatch_request cfg_example 123 (u ''deploy'') 1]\<rparr>)"
    using t m
    by (simp add: task_command_def trigger_github_actions_failure [OF f] w_empty_def Let_def)
  then show ?thesis using f m w1 by simp
qed

section \<open>Mode selection\<close>

text \<open>
  Claim C6, at the inputs where the code departs from it. Requester 123 has stored the
  override \<open>Cloud\<close>, and one live process has a name psutil could not read. The
  probe runs although a mode is stored, \<open>.lower()\<close> raises on the missing name, and
  \<open>task_command\<close> ends with the uncaught \<open>AttributeError\<close>: the override is not
  returned and nothing is dispatched. With no stored mode, the same process listed before
  a live agent makes the resolution raise instead of returning \<open>Local\<close>; listed after
  the agent it is never looked at.
\<close>

theorem resolve_mode_raises_on_unreadable_name:
  "user_execution_mode (snd (cloud_mode 123 w_empty)) 123 = Some Cloud
   \<and> resolve_mode [unreadable_proc] 123 (snd (cloud_mode 123 w_empty)) = Inl AttributeError
   \<and> task_command cfg_example [unreadable_proc] (Response 204 []) 123 1 [u ''deploy'']
        (snd (cloud_mode 123 w_empty))
       = Inl AttributeError
   \<and> user_execution_mode w_empty 123 = None
   \<and> resolve_mode [unreadable_proc, claude_proc] 123 w_empty = Inl AttributeError
   \<and> resolve_mode [claude_proc, unreadable_proc] 123 w_empty = Inr Local"
  by (simp add: cloud_mode_def resolve_mode_def task_command_def unreadable_proc_raises
      claude_proc_detected w_empty_def del: detect_execution_mode.simps(2))

text \<open>
  Claim C7, at the input where the code departs from it. \<open>/auto\<close> is sent while the
  agent is alive, which stores \<open>Local\<close> for the requester. A task is then submitted
  when no process is alive: the probe at that moment says \<open>Cloud\<close>, and
  \<open>task_command\<close> nevertheless dispatches locally, from the stored value.
\<close>

theorem auto_mode_stores_probe_result:
  "auto_mode [claude_proc] 123 w_empty
     = Inr ([AutoDetectEnabled Local],
            w_empty\<lparr>user_execution_mode := (user_execution_mode w_empty)(123 := Some Local)\<rparr>)
   \<and> detect_execution_mode [] = Inr Cloud
   \<and> task_command cfg_example [] (Response 204 []) 123 1 [u ''deploy'']
        (w_empty\<lparr>user_execution_mode := (user_execution_mode w_empty)(123 := Some Local)\<rparr>)
       = Inr ([TaskQueued Local (u ''deploy''), LocalSent],
              w_empty\<lparr>files := (files w_empty)(PENDING_TASK_FILE := Some (u ''deploy'')),
                      dirs := (dirs w_empty)(PENDING_DIR := True),
                      user_execution_mode := (user_execution_mode w_empty)(123 := Some Local)\<rparr>)"
proof -
  have e: "encodable
      (w_empty\<lparr>user_execution_mode := (user_execution_mode w_empty)(123 := Some Local),
               dirs := (dirs w_empty)(PENDING_DIR := True),
               files := (files w_empty)(PENDING_TASK_FILE := Some [])\<rparr>) (u ''deploy'')"
    using encodable_ascii by (simp add: encodable_def)
  show ?thesis
    using e
    by (simp add: auto_mode_def task_command_def resolve_mode_def claude_proc_detected
        trigger_local_execution_def mkdir_def open_w_def w_empty_def Let_def
        del: detect_execution_mode.simps(2))
qed

section \<open>Local dispatch\<close>




section \<open>Authorization\<close>

text \<open>
  Claim C1, at the input where the code departs from it. Requester 999 is not the
  authorized identity 123. \<open>create_task\<close> of bot.py ignores the request, but the
  handlers of bot_v3.py check nothing: \<open>cloud_mode\<close> stores a mode for 999, and
  \<open>task_command\<close> posts the request to the remote endpoint, or writes the exchange file
  when the agent is alive.
\<close>

theorem v3_handlers_serve_unauthorized_requester:
  "\<not> is_authorized cfg_example 999
   \<and> create_task cfg_example clk_example 999 [u ''deploy''] w_empty = ([], w_empty)
   \<and> user_execution_mode w_empty 999 = None
   \<and> user_execution_mode (snd (cloud_mode 999 w_empty)) 999 = Some Cloud
   \<and> task_command cfg_example [] (Response 204 []) 999 1 [u ''deploy''] w_empty
       = Inr ([TaskQueued Cloud (u ''deploy''), CloudTriggered],
              w_empty\<lparr>posts := [dispatch_request cfg_example 999 (u ''deploy'') 1]\<rparr>)
   \<and> task_command cfg_example [claude_proc] (Response 204 []) 999 1 [u ''deploy''] w_empty
       = Inr ([TaskQueued Local (u ''deploy''), LocalSent],
              w_empty\<lparr>dirs := (dirs w_empty)(PENDING_DIR := True),
                      files := (files w_empty)(PENDING_TASK_FILE := Some (u ''deploy''))\<rparr>)"
proof -
  have t: "truthy (GITHUB_TOKEN cfg_example)" by (simp add: truthy_def cfg_example_def u_def)
  have e: "encodable
      (w_empty\<lparr>dirs := (dirs w_empty)(PENDING_DIR := True),
               files := (files w_empty)(PENDING_TASK_FILE := Some [])\<rparr>) (u ''deploy'')"
    using encodable_ascii by (simp add: encodable_def)
  show ?thesis
    using unauthorized_example t e
    by (simp add: botpy_unauthorized_frame cloud_mode_def task_command_def resolve_mode_def
        claude_proc_detected trigger_github_actions_def trigger_local_execution_def mkdir_def
        open_w_def w_empty_def Let_def del: detect_execution_mode.simps(2))
qed

end
